theory Spec2Isabelle
  imports Complex_Main "HOL-Library.AList"
begin

section \<open>JavaScript values read by the engine\<close>

text \<open>
  The engine (\<^verbatim>\<open>src/utils/enhancedMLModel.ts\<close>, class \<^verbatim>\<open>EnhancedSepsisMLModel\<close>)
  receives patient payloads typed \<^verbatim>\<open>any\<close>. A field of such a payload is modelled as
  \<^verbatim>\<open>undefined\<close>, \<^verbatim>\<open>null\<close> or a number; a number is \<^verbatim>\<open>NaN\<close>, an infinity or a
  finite value. Finite doubles are idealised as reals (both zeros are \<open>Fin 0\<close>), so
  rounding of the arithmetic is not part of the model.
\<close>

datatype jsnum = NaN | NegInf | Fin real | PosInf

datatype jsval = Undefined | Null | Num jsnum

text \<open>The relational operator \<^verbatim>\<open><\<close> on numbers: false as soon as one side is \<^verbatim>\<open>NaN\<close>.\<close>

fun js_lt :: "jsnum \<Rightarrow> jsnum \<Rightarrow> bool" where
  "js_lt NaN _ = False"
| "js_lt _ NaN = False"
| "js_lt NegInf NegInf = False"
| "js_lt NegInf _ = True"
| "js_lt (Fin a) NegInf = False"
| "js_lt (Fin a) (Fin b) = (a < b)"
| "js_lt (Fin a) PosInf = True"
| "js_lt PosInf _ = False"

text \<open>\<^verbatim>\<open>ToNumber\<close>, as the relational operators apply it to a non-number operand.\<close>

fun ToNumber :: "jsval \<Rightarrow> jsnum" where
  "ToNumber Undefined = NaN"
| "ToNumber Null = Fin 0"
| "ToNumber (Num n) = n"

text \<open>\<^verbatim>\<open>x > c\<close> and \<^verbatim>\<open>x < c\<close> for a payload field \<open>x\<close> and a numeric literal \<open>c\<close>.\<close>

definition gt :: "jsval \<Rightarrow> real \<Rightarrow> bool" where
  "gt x c = js_lt (Fin c) (ToNumber x)"

definition lt :: "jsval \<Rightarrow> real \<Rightarrow> bool" where
  "lt x c = js_lt (ToNumber x) (Fin c)"

text \<open>\<^verbatim>\<open>x !== undefined && x !== null\<close>.\<close>

definition present :: "jsval \<Rightarrow> bool" where
  "present x = (x \<noteq> Undefined \<and> x \<noteq> Null)"

text \<open>\<^verbatim>\<open>!x\<close>: \<^verbatim>\<open>undefined\<close>, \<^verbatim>\<open>null\<close>, \<^verbatim>\<open>NaN\<close> and zero are falsy.\<close>

fun falsy :: "jsval \<Rightarrow> bool" where
  "falsy Undefined = True"
| "falsy Null = True"
| "falsy (Num NaN) = True"
| "falsy (Num (Fin a)) = (a = 0)"
| "falsy (Num _) = False"

section \<open>Patient payload\<close>

text \<open>
  An object is read by property name; a property that is not there reads as
  \<^verbatim>\<open>undefined\<close>. \<^verbatim>\<open>vitals\<close> and \<^verbatim>\<open>labs\<close> may themselves be \<^verbatim>\<open>undefined\<close> or
  \<^verbatim>\<open>null\<close> (\<open>None\<close>), which the optional chaining \<^verbatim>\<open>?.\<close> turns into \<^verbatim>\<open>undefined\<close>.
\<close>

type_synonym obj = "string \<Rightarrow> jsval"

record patientData =
  vitals :: "obj option"
  labs :: "obj option"
  ICULOS :: jsval
  Age :: jsval
  HospAdmTime :: jsval

definition vitalsGet :: "patientData \<Rightarrow> string \<Rightarrow> jsval" where
  "vitalsGet pd k = (case vitals pd of None \<Rightarrow> Undefined | Some ob \<Rightarrow> ob k)"

definition labsGet :: "patientData \<Rightarrow> string \<Rightarrow> jsval" where
  "labsGet pd k = (case labs pd of None \<Rightarrow> Undefined | Some ob \<Rightarrow> ob k)"

section \<open>Engine state\<close>

text \<open>
  \<^verbatim>\<open>ThresholdSettings\<close> is declared in \<^verbatim>\<open>types/dataset\<close>, which is not among the
  sources; its shape is taken from the uses in the class: an object from parameter name
  to \<^verbatim>\<open>{min?, max?, critical?, enabled}\<close>. The object is an association list in
  the order \<^verbatim>\<open>Object.entries\<close> walks it (insertion order; parameter names are not
  integer-like keys). An optional bound that is not configured is \<open>None\<close>.
\<close>

record parameterThreshold =
  tmin :: "jsnum option"
  tmax :: "jsnum option"
  critical :: "jsnum option"
  enabled :: bool

type_synonym thresholdSettings = "(string \<times> parameterThreshold) list"

definition mkThreshold :: "real \<Rightarrow> real \<Rightarrow> real \<Rightarrow> bool \<Rightarrow> parameterThreshold" where
  "mkThreshold mn mx cr en =
     \<lparr>tmin = Some (Fin mn), tmax = Some (Fin mx), critical = Some (Fin cr), enabled = en\<rparr>"

text \<open>
  The \<^verbatim>\<open>model\<close> field is \<^verbatim>\<open>null\<close> (\<open>None\<close>) until training completes. Of the
  object stored there the descriptive strings, the feature list and the timestamp are
  left out: nothing reads them.
\<close>

record trainedModel =
  trained :: bool
  patientCount :: nat
  sepsisPrevalence :: jsnum
  crossValidationScore :: real

record engine =
  model :: "trainedModel option"
  isTraining :: bool
  trainingProgress :: real
  thresholds :: thresholdSettings

definition initializeDefaultThresholds :: thresholdSettings where
  "initializeDefaultThresholds =
     [(''HR'', mkThreshold 60 100 120 True),
      (''Temp'', mkThreshold 36.1 37.2 38.5 True),
      (''SBP'', mkThreshold 90 140 80 True),
      (''Resp'', mkThreshold 12 20 25 True),
      (''O2Sat'', mkThreshold 95 100 90 True),
      (''WBC'', mkThreshold 4.0 12.0 15.0 True),
      (''Lactate'', mkThreshold 0.5 2.2 4.0 True),
      (''Creatinine'', mkThreshold 0.7 1.3 2.0 True),
      (''Platelets'', mkThreshold 150 450 100 True),
      (''MAP'', mkThreshold 70 100 65 True)]"

text \<open>The constructor: field initialisers, then \<^verbatim>\<open>initializeDefaultThresholds()\<close>.\<close>

definition newEngine :: engine where
  "newEngine =
     \<lparr>model = None, isTraining = False, trainingProgress = 0,
      thresholds = initializeDefaultThresholds\<rparr>"

text \<open>
  \<^verbatim>\<open>{ ...this.thresholds, ...newThresholds }\<close>: each property of the update is
  assigned in turn; an existing key keeps its place and takes the new entry whole, a
  new key goes to the end. Nothing is validated.
\<close>

definition updateThresholds :: "thresholdSettings \<Rightarrow> engine \<Rightarrow> engine" where
  "updateThresholds newThresholds eng =
     eng\<lparr>thresholds := fold (\<lambda>(k, c). AList.update k c) newThresholds (thresholds eng)\<rparr>"

definition getThresholds :: "engine \<Rightarrow> thresholdSettings" where
  "getThresholds eng = thresholds eng"

definition isModelTrained :: "engine \<Rightarrow> bool" where
  "isModelTrained eng = (model eng \<noteq> None)"

section \<open>The risk scorer\<close>

datatype riskLevel = LOW | MODERATE | HIGH | CRITICAL | UNCERTAIN

record prediction =
  probability :: real
  confidence :: real
  riskLevel :: riskLevel

text \<open>
  The mutable locals of \<^verbatim>\<open>predictWithUncertainty\<close>; \<open>conf\<close> is the local
  \<^verbatim>\<open>confidence\<close>.
\<close>

record locals =
  riskScore :: real
  conf :: real
  uncertaintyPenalty :: real
  sirsCount :: nat
  dataCompleteness :: nat
  totalChecks :: nat

definition initLocals :: locals where
  "initLocals =
     \<lparr>riskScore = 0, conf = 0.88, uncertaintyPenalty = 0,
      sirsCount = 0, dataCompleteness = 0, totalChecks = 0\<rparr>"

text \<open>\<^verbatim>\<open>riskScore += w\<close>, \<^verbatim>\<open>confidence += w\<close>, \<^verbatim>\<open>uncertaintyPenalty += w\<close>.\<close>

definition addRisk :: "real \<Rightarrow> locals \<Rightarrow> locals" where
  "addRisk w s = s\<lparr>riskScore := riskScore s + w\<rparr>"

definition addConfidence :: "real \<Rightarrow> locals \<Rightarrow> locals" where
  "addConfidence w s = s\<lparr>conf := conf s + w\<rparr>"

definition addPenalty :: "real \<Rightarrow> locals \<Rightarrow> locals" where
  "addPenalty w s = s\<lparr>uncertaintyPenalty := uncertaintyPenalty s + w\<rparr>"

text \<open>\<^verbatim>\<open>totalChecks++; dataCompleteness++;\<close>\<close>

definition countChecked :: "locals \<Rightarrow> locals" where
  "countChecked s =
     s\<lparr>totalChecks := totalChecks s + 1, dataCompleteness := dataCompleteness s + 1\<rparr>"

text \<open>\<^verbatim>\<open>sirsCount++; riskScore += w;\<close>\<close>

definition sirsHit :: "real \<Rightarrow> locals \<Rightarrow> locals" where
  "sirsHit w s = addRisk w (s\<lparr>sirsCount := sirsCount s + 1\<rparr>)"

text \<open>\<^verbatim>\<open>if (c) riskScore += w;\<close>\<close>

definition riskIf :: "bool \<Rightarrow> real \<Rightarrow> locals \<Rightarrow> locals" where
  "riskIf c w s = (if c then addRisk w s else s)"

text \<open>Temperature, lines 113 to 129.\<close>

definition tempChannel :: "patientData \<Rightarrow> locals \<Rightarrow> locals" where
  "tempChannel pd s =
     (let t = vitalsGet pd ''Temp'' in
      if present t then
        (let s1 = countChecked s;
             s2 = (if gt t 38 \<or> lt t 36 then sirsHit 0.24 s1 else s1);
             s3 = riskIf (gt t 39.5 \<or> lt t 35) 0.18 s2
         in riskIf (gt t 40 \<or> lt t 34) 0.12 s3)
      else addPenalty 0.06 s)"

text \<open>Heart rate, lines 131 to 151.\<close>

definition hrChannel :: "patientData \<Rightarrow> locals \<Rightarrow> locals" where
  "hrChannel pd s =
     (let h = vitalsGet pd ''HR'' in
      if present h then
        (let s1 = countChecked s;
             s2 = (if gt h 90 then sirsHit 0.21 s1 else s1);
             s3 = riskIf (gt h 120) 0.15 s2;
             s4 = riskIf (gt h 150) 0.10 s3
         in riskIf (lt h 60) 0.18 s4)
      else addPenalty 0.06 s)"

text \<open>Respiratory rate, lines 153 to 169.\<close>

definition respChannel :: "patientData \<Rightarrow> locals \<Rightarrow> locals" where
  "respChannel pd s =
     (let r = vitalsGet pd ''Resp'' in
      if present r then
        (let s1 = countChecked s;
             s2 = (if gt r 20 then sirsHit 0.18 s1 else s1);
             s3 = riskIf (gt r 28) 0.12 s2
         in riskIf (gt r 35) 0.08 s3)
      else addPenalty 0.05 s)"

text \<open>White cell count, lines 171 to 187.\<close>

definition wbcChannel :: "patientData \<Rightarrow> locals \<Rightarrow> locals" where
  "wbcChannel pd s =
     (let w = labsGet pd ''WBC'' in
      if present w then
        (let s1 = countChecked s;
             s2 = (if gt w 12 \<or> lt w 4 then sirsHit 0.28 s1 else s1);
             s3 = riskIf (gt w 20 \<or> lt w 2) 0.20 s2
         in riskIf (gt w 30 \<or> lt w 1) 0.15 s3)
      else addPenalty 0.10 s)"

text \<open>Mean arterial pressure, lines 189 to 200: no penalty when it is missing.\<close>

definition mapChannel :: "patientData \<Rightarrow> locals \<Rightarrow> locals" where
  "mapChannel pd s =
     (let m = vitalsGet pd ''MAP'' in
      if present m then
        (let s1 = countChecked s in
         if lt m 65 then addRisk 0.35 s1
         else if lt m 70 then addRisk 0.22 s1
         else if lt m 75 then addRisk 0.12 s1
         else s1)
      else s)"

text \<open>Lactate, lines 202 to 220.\<close>

definition lactateChannel :: "patientData \<Rightarrow> locals \<Rightarrow> locals" where
  "lactateChannel pd s =
     (let l = labsGet pd ''Lactate'' in
      if present l then
        (let s1 = countChecked s in
         if gt l 4.0 then addConfidence 0.10 (addRisk 0.42 s1)
         else if gt l 2.5 then addConfidence 0.06 (addRisk 0.28 s1)
         else if gt l 2.0 then addConfidence 0.03 (addRisk 0.18 s1)
         else if gt l 1.5 then addRisk 0.08 s1
         else s1)
      else addPenalty 0.12 s)"

text \<open>
  Organ dysfunction markers, lines 222 to 245. These compare without a presence
  check, so a missing field compares as \<^verbatim>\<open>NaN\<close> and a \<^verbatim>\<open>null\<close> one as 0.
\<close>

definition creatinineChannel :: "patientData \<Rightarrow> locals \<Rightarrow> locals" where
  "creatinineChannel pd s =
     (let c = labsGet pd ''Creatinine'' in
      if gt c 3.0 then addRisk 0.25 s
      else if gt c 2.0 then addRisk 0.18 s
      else if gt c 1.5 then addRisk 0.10 s
      else s)"

definition plateletsChannel :: "patientData \<Rightarrow> locals \<Rightarrow> locals" where
  "plateletsChannel pd s =
     (let p = labsGet pd ''Platelets'' in
      if lt p 50 then addRisk 0.28 s
      else if lt p 100 then addRisk 0.20 s
      else if lt p 150 then addRisk 0.12 s
      else s)"

definition o2satChannel :: "patientData \<Rightarrow> locals \<Rightarrow> locals" where
  "o2satChannel pd s =
     (let x = vitalsGet pd ''O2Sat'' in
      if lt x 85 then addRisk 0.30 s
      else if lt x 90 then addRisk 0.22 s
      else if lt x 95 then addRisk 0.12 s
      else s)"

definition phChannel :: "patientData \<Rightarrow> locals \<Rightarrow> locals" where
  "phChannel pd s =
     (let x = labsGet pd ''pH'' in
      if lt x 7.20 then addRisk 0.25 s
      else if lt x 7.30 then addRisk 0.15 s
      else if lt x 7.35 then addRisk 0.08 s
      else s)"

definition bilirubinChannel :: "patientData \<Rightarrow> locals \<Rightarrow> locals" where
  "bilirubinChannel pd s =
     (let b = labsGet pd ''Bilirubin_total'' in
      if gt b 4.0 then addRisk 0.20 s
      else if gt b 2.0 then addRisk 0.12 s
      else s)"

definition pttChannel :: "patientData \<Rightarrow> locals \<Rightarrow> locals" where
  "pttChannel pd s =
     (let x = labsGet pd ''PTT'' in
      if gt x 60 then addRisk 0.15 s
      else if gt x 45 then addRisk 0.08 s
      else s)"

text \<open>Time in the ICU, age, time since admission, lines 247 to 257.\<close>

definition iculosChannel :: "patientData \<Rightarrow> locals \<Rightarrow> locals" where
  "iculosChannel pd s =
     (if gt (ICULOS pd) 72 then addRisk 0.12 s
      else if gt (ICULOS pd) 48 then addRisk 0.08 s
      else if gt (ICULOS pd) 24 then addRisk 0.05 s
      else s)"

definition ageChannel :: "patientData \<Rightarrow> locals \<Rightarrow> locals" where
  "ageChannel pd s =
     (if gt (Age pd) 75 then addRisk 0.08 s
      else if gt (Age pd) 65 then addRisk 0.05 s
      else s)"

definition hospAdmChannel :: "patientData \<Rightarrow> locals \<Rightarrow> locals" where
  "hospAdmChannel pd s =
     (if gt (HospAdmTime pd) 168 then addRisk 0.08 s
      else if gt (HospAdmTime pd) 72 then addRisk 0.05 s
      else s)"

text \<open>The locals when control reaches line 259, all channels done in source order.\<close>

definition scoreLocals :: "patientData \<Rightarrow> locals" where
  "scoreLocals pd =
     (hospAdmChannel pd \<circ> ageChannel pd \<circ> iculosChannel pd \<circ>
      pttChannel pd \<circ> bilirubinChannel pd \<circ> phChannel pd \<circ> o2satChannel pd \<circ>
      plateletsChannel pd \<circ> creatinineChannel pd \<circ>
      lactateChannel pd \<circ> mapChannel pd \<circ>
      wbcChannel pd \<circ> respChannel pd \<circ> hrChannel pd \<circ> tempChannel pd) initLocals"

text \<open>\<^verbatim>\<open>totalChecks > 0 ? dataCompleteness / totalChecks : 0\<close>\<close>

definition completenessRatio :: "locals \<Rightarrow> real" where
  "completenessRatio s =
     (if totalChecks s > 0 then real (dataCompleteness s) / real (totalChecks s) else 0)"

text \<open>
  Lines 259 to 288. The method reads nothing of \<^verbatim>\<open>this\<close>; the engine is a
  parameter because it is a method of the class.
\<close>

definition predictWithUncertainty :: "engine \<Rightarrow> patientData \<Rightarrow> prediction" where
  "predictWithUncertainty eng pd =
     (let s = scoreLocals pd;
          ratio = completenessRatio s;
          confidence1 = conf s - uncertaintyPenalty s * 0.7;
          confidence2 = max 0.3 (min 0.96 (confidence1 * (0.75 + 0.25 * ratio)));
          riskScore2 = max 0 (min 1 (riskScore s * 1.05));
          level =
            (if confidence2 < 0.55 \<or> ratio < 0.35 then UNCERTAIN
             else if riskScore2 < 0.18 then LOW
             else if riskScore2 < 0.42 then MODERATE
             else if riskScore2 < 0.68 then HIGH
             else CRITICAL)
      in \<lparr>probability = riskScore2, confidence = confidence2, riskLevel = level\<rparr>)"

section \<open>The threshold evaluator\<close>

datatype severity = Warning | Critical

record violation =
  parameter :: string
  val :: jsnum
  threshold :: jsnum
  severity :: severity

text \<open>
  The parameters whose critical threshold is a lower bound (the test on \<^verbatim>\<open>param\<close>
  at lines 314 and 321).
\<close>

definition lowerCritical :: "string \<Rightarrow> bool" where
  "lowerCritical param =
     (param = ''SBP'' \<or> param = ''MAP'' \<or> param = ''O2Sat'' \<or> param = ''Platelets'')"

text \<open>
  The value lookup of lines 302 to 308: \<^verbatim>\<open>vitals\<close> first, \<^verbatim>\<open>labs\<close> only when
  \<^verbatim>\<open>vitals\<close> gives \<^verbatim>\<open>undefined\<close> (a \<^verbatim>\<open>null\<close> in \<^verbatim>\<open>vitals\<close> is taken).
\<close>

definition resolveValue :: "patientData \<Rightarrow> string \<Rightarrow> jsval" where
  "resolveValue pd param =
     (if vitalsGet pd param \<noteq> Undefined then vitalsGet pd param
      else if labsGet pd param \<noteq> Undefined then labsGet pd param
      else Undefined)"

definition criticalCheck :: "string \<Rightarrow> parameterThreshold \<Rightarrow> jsnum \<Rightarrow> violation list" where
  "criticalCheck param config v =
     (case critical config of
        None \<Rightarrow> []
      | Some c \<Rightarrow>
          if lowerCritical param \<and> js_lt v c
          then [\<lparr>parameter = param, val = v, threshold = c, severity = Critical\<rparr>]
          else if \<not> lowerCritical param \<and> js_lt c v
          then [\<lparr>parameter = param, val = v, threshold = c, severity = Critical\<rparr>]
          else [])"

definition minCheck :: "string \<Rightarrow> parameterThreshold \<Rightarrow> jsnum \<Rightarrow> violation list" where
  "minCheck param config v =
     (case tmin config of
        None \<Rightarrow> []
      | Some m \<Rightarrow>
          if js_lt v m
          then [\<lparr>parameter = param, val = v, threshold = m, severity = Warning\<rparr>]
          else [])"

definition maxCheck :: "string \<Rightarrow> parameterThreshold \<Rightarrow> jsnum \<Rightarrow> violation list" where
  "maxCheck param config v =
     (case tmax config of
        None \<Rightarrow> []
      | Some m \<Rightarrow>
          if js_lt m v
          then [\<lparr>parameter = param, val = v, threshold = m, severity = Warning\<rparr>]
          else [])"

text \<open>One pass of the loop body (lines 300 to 347): what it pushes.\<close>

definition checkParam :: "patientData \<Rightarrow> string \<Rightarrow> parameterThreshold \<Rightarrow> violation list" where
  "checkParam pd param config =
     (if \<not> enabled config then []
      else
        (case resolveValue pd param of
           Undefined \<Rightarrow> []
         | Null \<Rightarrow> []
         | Num v \<Rightarrow> criticalCheck param config v @ minCheck param config v @ maxCheck param config v))"

text \<open>The loop over \<^verbatim>\<open>Object.entries(this.thresholds)\<close>, pushing onto \<^verbatim>\<open>violations\<close>.\<close>

fun checkLoop :: "patientData \<Rightarrow> thresholdSettings \<Rightarrow> violation list \<Rightarrow> violation list" where
  "checkLoop pd [] violations = violations"
| "checkLoop pd ((param, config) # rest) violations =
     checkLoop pd rest (violations @ checkParam pd param config)"

definition checkThresholds :: "engine \<Rightarrow> patientData \<Rightarrow> violation list" where
  "checkThresholds eng pd = checkLoop pd (thresholds eng) []"

section \<open>The uncertainty analyzer\<close>

text \<open>\<^verbatim>\<open>if (c) factors.push(tag)\<close>.\<close>

definition pushIf :: "bool \<Rightarrow> string \<Rightarrow> string list \<Rightarrow> string list" where
  "pushIf c tag factors = (if c then factors @ [tag] else factors)"

definition identifyUncertaintyFactors :: "engine \<Rightarrow> patientData \<Rightarrow> string list" where
  "identifyUncertaintyFactors eng pd =
     (let f1 = pushIf (falsy (labsGet pd ''Lactate'')) ''Missing lactate levels'' [];
          f2 = pushIf (falsy (labsGet pd ''WBC'')) ''Missing white blood cell count'' f1;
          f3 = pushIf (falsy (vitalsGet pd ''HR'')) ''Missing heart rate data'' f2;
          f4 = pushIf (falsy (vitalsGet pd ''Temp'')) ''Missing temperature readings'' f3;
          f5 = pushIf (gt (labsGet pd ''Lactate'') 2.0 \<and> lt (labsGet pd ''Lactate'') 2.5)
                 ''Borderline lactate elevation'' f4
      in pushIf (gt (vitalsGet pd ''HR'') 85 \<and> lt (vitalsGet pd ''HR'') 95)
           ''Borderline tachycardia'' f5)"

section \<open>The metrics synthesizer\<close>

text \<open>
  \<^verbatim>\<open>DatasetRow\<close> is declared in \<^verbatim>\<open>types/dataset\<close>, not among the sources: a row is
  an object from column name to value, in column order.
\<close>

type_synonym datasetRow = "(string \<times> jsval) list"

definition rowGet :: "datasetRow \<Rightarrow> string \<Rightarrow> jsval" where
  "rowGet row k = (case map_of row k of None \<Rightarrow> Undefined | Some v \<Rightarrow> v)"

text \<open>The four \<^verbatim>\<open>Math.random()\<close> results of \<^verbatim>\<open>generateEnhancedMetrics\<close>, in call order.\<close>

record draws =
  accuracyDraw :: real
  recallDraw :: real
  precisionDraw :: real
  aucDraw :: real

record modelMetrics =
  accuracy :: real
  precision :: real
  recall :: real
  f1Score :: real
  auc :: real
  confusionMatrix :: "int list list"
  featureImportance :: "(string \<times> real) list"
  falsePositiveRate :: real
  falseNegativeRate :: real

text \<open>\<^verbatim>\<open>Math.round\<close>: the nearest integer, a half going up.\<close>

definition js_round :: "real \<Rightarrow> int" where
  "js_round x = \<lfloor>x + 1 / 2\<rfloor>"

text \<open>\<^verbatim>\<open>dataset.filter(row => row.SepsisLabel === 1).length\<close>\<close>

definition positiveCount :: "datasetRow list \<Rightarrow> nat" where
  "positiveCount dataset =
     length (filter (\<lambda>row. rowGet row ''SepsisLabel'' = Num (Fin 1)) dataset)"

definition generateEnhancedMetrics :: "draws \<Rightarrow> engine \<Rightarrow> datasetRow list \<Rightarrow> modelMetrics" where
  "generateEnhancedMetrics rnd eng dataset =
     (let accuracy1 = 0.87 + accuracyDraw rnd * 0.06;
          recall1 = 0.89 + recallDraw rnd * 0.08;
          precision1 = 0.83 + precisionDraw rnd * 0.09;
          f1 = 2 * (precision1 * recall1) / (precision1 + recall1);
          auc1 = 0.91 + aucDraw rnd * 0.06;
          fnr = 1 - recall1;
          fpr = (1 - precision1) * (recall1 / (1 - recall1 + recall1));
          totalSamples = int (length dataset);
          positiveSamples = int (positiveCount dataset);
          negativeSamples = totalSamples - positiveSamples;
          tp = js_round (real_of_int positiveSamples * recall1);
          fn = positiveSamples - tp;
          fp = js_round (real_of_int negativeSamples * fpr);
          tn = negativeSamples - fp
      in \<lparr>accuracy = accuracy1, precision = precision1, recall = recall1, f1Score = f1,
          auc = auc1, confusionMatrix = [[tn, fp], [fn, tp]],
          featureImportance =
            [(''Lactate'', 0.18), (''WBC'', 0.16), (''MAP'', 0.14), (''Temperature'', 0.12),
             (''Heart_Rate'', 0.11), (''Platelets'', 0.09), (''Creatinine'', 0.08),
             (''Respiratory_Rate'', 0.07), (''O2_Saturation'', 0.05), (''Age'', 0.04),
             (''ICULOS'', 0.03), (''pH'', 0.03)],
          falsePositiveRate = fpr, falseNegativeRate = fnr\<rparr>)"

section \<open>Training and the patient report\<close>

text \<open>
  \<^verbatim>\<open>trainModelInBackground\<close> once its promise has resolved: the timer ticks that
  move \<^verbatim>\<open>trainingProgress\<close> during the wait are overwritten by 100, the model
  object is stored, the metrics are drawn, and \<^verbatim>\<open>isTraining\<close> is cleared. The wait
  itself is not modelled. \<^verbatim>\<open>sepsisPrevalence\<close> of an empty dataset is \<^verbatim>\<open>0 / 0\<close>.
\<close>

definition trainModelInBackground :: "draws \<Rightarrow> datasetRow list \<Rightarrow> engine \<Rightarrow> modelMetrics \<times> engine" where
  "trainModelInBackground rnd dataset eng =
     (let eng1 = eng\<lparr>isTraining := True, trainingProgress := 0\<rparr>;
          eng2 = eng1\<lparr>trainingProgress := 100\<rparr>;
          eng3 = eng2\<lparr>model := Some
                   \<lparr>trained = True,
                    patientCount = card (set (map (\<lambda>row. rowGet row ''Patient_ID'') dataset)),
                    sepsisPrevalence =
                      (if dataset = [] then NaN
                       else Fin (real (positiveCount dataset) / real (length dataset))),
                    crossValidationScore = 0.89\<rparr>\<rparr>;
          metrics = generateEnhancedMetrics rnd eng3 dataset
      in (metrics, eng3\<lparr>isTraining := False\<rparr>))"

datatype error = ModelNotTrained

text \<open>
  Of \<^verbatim>\<open>PatientAnalysisReport\<close> the fields that are rendered text (findings,
  recommendations, treatment plan, follow-up actions) and the timestamp are left out.
\<close>

record patientAnalysisReport =
  patientId :: string
  overallRisk :: riskLevel
  reportConfidence :: real
  riskProbability :: real
  thresholdViolations :: "violation list"
  uncertaintyFactors :: "string list"

definition analyzePatient :: "engine \<Rightarrow> patientData \<Rightarrow> string \<Rightarrow> error + patientAnalysisReport" where
  "analyzePatient eng pd pid =
     (if model eng = None then Inl ModelNotTrained
      else
        (let prediction = predictWithUncertainty eng pd;
             violations = checkThresholds eng pd;
             factors = identifyUncertaintyFactors eng pd
         in Inr \<lparr>patientId = pid, overallRisk = riskLevel prediction,
                 reportConfidence = confidence prediction,
                 riskProbability = probability prediction,
                 thresholdViolations = violations, uncertaintyFactors = factors\<rparr>))"

section \<open>Payloads used in the statements\<close>

definition emptyObj :: obj where
  "emptyObj = (\<lambda>k. Undefined)"

definition emptyRecord :: patientData where
  "emptyRecord =
     \<lparr>vitals = None, labs = None, ICULOS = Undefined, Age = Undefined,
      HospAdmTime = Undefined\<rparr>"

text \<open>\<^verbatim>\<open>{ vitals: { MAP: 80 } }\<close>\<close>

definition mapOnlyRecord :: patientData where
  "mapOnlyRecord = emptyRecord\<lparr>vitals := Some (emptyObj(''MAP'' := Num (Fin 80)))\<rparr>"

text \<open>\<^verbatim>\<open>{ labs: { Lactate: 1 } }\<close>\<close>

definition lactateOnlyRecord :: patientData where
  "lactateOnlyRecord = emptyRecord\<lparr>labs := Some (emptyObj(''Lactate'' := Num (Fin 1)))\<rparr>"

text \<open>The record with \<^verbatim>\<open>labs.Lactate\<close> set to a finite value, everything else as it was.\<close>

definition withLactate :: "patientData \<Rightarrow> real \<Rightarrow> patientData" where
  "withLactate pd x =
     pd\<lparr>labs := Some ((case labs pd of None \<Rightarrow> emptyObj | Some ob \<Rightarrow> ob)
                       (''Lactate'' := Num (Fin x)))\<rparr>"

text \<open>\<^verbatim>\<open>{ vitals: { HR: 80 } }\<close> and \<^verbatim>\<open>{ vitals: { HR: 130 } }\<close>\<close>

definition hr80Record :: patientData where
  "hr80Record = emptyRecord\<lparr>vitals := Some (emptyObj(''HR'' := Num (Fin 80)))\<rparr>"

definition hr130Record :: patientData where
  "hr130Record = emptyRecord\<lparr>vitals := Some (emptyObj(''HR'' := Num (Fin 130)))\<rparr>"

text \<open>
  \<^verbatim>\<open>updateThresholds({ HR: { min: 100, max: 60, critical: 70, enabled: true } })\<close>
  on a new engine: a range with \<^verbatim>\<open>min > max\<close>.
\<close>

definition contradictoryEngine :: engine where
  "contradictoryEngine = updateThresholds [(''HR'', mkThreshold 100 60 70 True)] newEngine"

text \<open>
  \<^verbatim>\<open>{ vitals: { HR: 0, Temp: 37 }, labs: { Lactate: 1, WBC: 8 } }\<close>: a recorded
  heart rate of zero.
\<close>

definition hrZeroRecord :: patientData where
  "hrZeroRecord =
     emptyRecord
       \<lparr>vitals := Some (emptyObj(''HR'' := Num (Fin 0), ''Temp'' := Num (Fin 37))),
        labs := Some (emptyObj(''Lactate'' := Num (Fin 1), ''WBC'' := Num (Fin 8)))\<rparr>"

definition zeroDraws :: draws where
  "zeroDraws = \<lparr>accuracyDraw = 0, recallDraw = 0, precisionDraw = 0, aucDraw = 0\<rparr>"

definition halfDraws :: draws where
  "halfDraws = \<lparr>accuracyDraw = 1 / 2, recallDraw = 1 / 2, precisionDraw = 1 / 2, aucDraw = 1 / 2\<rparr>"

text \<open>Three rows, one of them labelled positive.\<close>

definition sampleDataset :: "datasetRow list" where
  "sampleDataset =
     [[(''Patient_ID'', Num (Fin 1)), (''HR'', Num (Fin 88)), (''SepsisLabel'', Num (Fin 1))],
      [(''Patient_ID'', Num (Fin 2)), (''HR'', Num (Fin 70)), (''SepsisLabel'', Num (Fin 0))],
      [(''Patient_ID'', Num (Fin 3)), (''HR'', Num (Fin 95)), (''SepsisLabel'', Num (Fin 0))]]"

text \<open>
  The risk-level rule in the words of the specification: first match wins among
  \<open>confidence < 0.55\<close> or \<open>completenessRatio < 0.35\<close> (UNCERTAIN), \<open>probability < 0.18\<close>
  (LOW), \<open>< 0.42\<close> (MODERATE), \<open>< 0.68\<close> (HIGH), else CRITICAL.
\<close>

definition specRiskLevel :: "real \<Rightarrow> real \<Rightarrow> real \<Rightarrow> riskLevel" where
  "specRiskLevel c r p =
     (if c < 0.55 \<or> r < 0.35 then UNCERTAIN
      else if p < 0.18 then LOW
      else if p < 0.42 then MODERATE
      else if p < 0.68 then HIGH
      else CRITICAL)"

text \<open>
  The fields whose presence the scorer tests with
  \<^verbatim>\<open>!== undefined && !== null\<close>, in source order.
\<close>

definition checkedFields :: "patientData \<Rightarrow> jsval list" where
  "checkedFields pd =
     [vitalsGet pd ''Temp'', vitalsGet pd ''HR'', vitalsGet pd ''Resp'', labsGet pd ''WBC'',
      vitalsGet pd ''MAP'', labsGet pd ''Lactate'']"

section \<open>Quantities used in the proofs\<close>

text \<open>What one channel adds to \<^verbatim>\<open>riskScore\<close>, read off a run from the initial locals.\<close>

definition channelRisk :: "(patientData \<Rightarrow> locals \<Rightarrow> locals) \<Rightarrow> patientData \<Rightarrow> real" where
  "channelRisk ch pd = riskScore (ch pd initLocals)"

text \<open>The weight of the lactate ladder at a finite lactate value.\<close>

definition lactateTier :: "real \<Rightarrow> real" where
  "lactateTier x =
     (if x > 4.0 then 0.42 else if x > 2.5 then 0.28 else if x > 2.0 then 0.18
      else if x > 1.5 then 0.08 else 0)"

section \<open>Facts about the scorer's counters\<close>

lemmas step_defs =
  addRisk_def addConfidence_def addPenalty_def countChecked_def sirsHit_def riskIf_def

lemmas channel_defs =
  tempChannel_def hrChannel_def respChannel_def wbcChannel_def mapChannel_def
  lactateChannel_def creatinineChannel_def plateletsChannel_def o2satChannel_def
  phChannel_def bilirubinChannel_def pttChannel_def iculosChannel_def ageChannel_def
  hospAdmChannel_def

lemmas eval_defs =
  scoreLocals_def channel_defs step_defs initLocals_def Let_def vitalsGet_def labsGet_def
  present_def gt_def lt_def completenessRatio_def predictWithUncertainty_def
  emptyRecord_def emptyObj_def

lemma totalChecks_tracked:
  "totalChecks (tempChannel pd s) =
     totalChecks s + (if present (vitalsGet pd ''Temp'') then 1 else 0)"
  "totalChecks (hrChannel pd s) =
     totalChecks s + (if present (vitalsGet pd ''HR'') then 1 else 0)"
  "totalChecks (respChannel pd s) =
     totalChecks s + (if present (vitalsGet pd ''Resp'') then 1 else 0)"
  "totalChecks (wbcChannel pd s) =
     totalChecks s + (if present (labsGet pd ''WBC'') then 1 else 0)"
  "totalChecks (mapChannel pd s) =
     totalChecks s + (if present (vitalsGet pd ''MAP'') then 1 else 0)"
  "totalChecks (lactateChannel pd s) =
     totalChecks s + (if present (labsGet pd ''Lactate'') then 1 else 0)"
  by (simp_all add: channel_defs step_defs Let_def)

lemma totalChecks_untracked:
  "totalChecks (creatinineChannel pd s) = totalChecks s"
  "totalChecks (plateletsChannel pd s) = totalChecks s"
  "totalChecks (o2satChannel pd s) = totalChecks s"
  "totalChecks (phChannel pd s) = totalChecks s"
  "totalChecks (bilirubinChannel pd s) = totalChecks s"
  "totalChecks (pttChannel pd s) = totalChecks s"
  "totalChecks (iculosChannel pd s) = totalChecks s"
  "totalChecks (ageChannel pd s) = totalChecks s"
  "totalChecks (hospAdmChannel pd s) = totalChecks s"
  by (simp_all add: channel_defs step_defs Let_def)

lemma dataCompleteness_tracked:
  "dataCompleteness (tempChannel pd s) =
     dataCompleteness s + (if present (vitalsGet pd ''Temp'') then 1 else 0)"
  "dataCompleteness (hrChannel pd s) =
     dataCompleteness s + (if present (vitalsGet pd ''HR'') then 1 else 0)"
  "dataCompleteness (respChannel pd s) =
     dataCompleteness s + (if present (vitalsGet pd ''Resp'') then 1 else 0)"
  "dataCompleteness (wbcChannel pd s) =
     dataCompleteness s + (if present (labsGet pd ''WBC'') then 1 else 0)"
  "dataCompleteness (mapChannel pd s) =
     dataCompleteness s + (if present (vitalsGet pd ''MAP'') then 1 else 0)"
  "dataCompleteness (lactateChannel pd s) =
     dataCompleteness s + (if present (labsGet pd ''Lactate'') then 1 else 0)"
  by (simp_all add: channel_defs step_defs Let_def)

lemma dataCompleteness_untracked:
  "dataCompleteness (creatinineChannel pd s) = dataCompleteness s"
  "dataCompleteness (plateletsChannel pd s) = dataCompleteness s"
  "dataCompleteness (o2satChannel pd s) = dataCompleteness s"
  "dataCompleteness (phChannel pd s) = dataCompleteness s"
  "dataCompleteness (bilirubinChannel pd s) = dataCompleteness s"
  "dataCompleteness (pttChannel pd s) = dataCompleteness s"
  "dataCompleteness (iculosChannel pd s) = dataCompleteness s"
  "dataCompleteness (ageChannel pd s) = dataCompleteness s"
  "dataCompleteness (hospAdmChannel pd s) = dataCompleteness s"
  by (simp_all add: channel_defs step_defs Let_def)

lemma totalChecks_scoreLocals:
  "totalChecks (scoreLocals pd) = length (filter present (checkedFields pd))"
  by (simp add: scoreLocals_def checkedFields_def initLocals_def
      totalChecks_tracked totalChecks_untracked)

lemma dataCompleteness_scoreLocals:
  "dataCompleteness (scoreLocals pd) = length (filter present (checkedFields pd))"
  by (simp add: scoreLocals_def checkedFields_def initLocals_def
      dataCompleteness_tracked dataCompleteness_untracked)

text \<open>
  Claim C1, as stated, fails: the MAP channel and the lactate channel each increment
  \<open>totalChecks\<close> and \<open>dataCompleteness\<close> when their field is present. A record that
  carries nothing but a MAP of 80 therefore has completeness ratio 1 and is rated LOW,
  where a ratio built from the four SIRS channels alone would be 0.
\<close>

theorem map_and_lactate_are_counted:
  "totalChecks (mapChannel mapOnlyRecord initLocals) = totalChecks initLocals + 1 \<and>
   dataCompleteness (mapChannel mapOnlyRecord initLocals) = dataCompleteness initLocals + 1 \<and>
   totalChecks (lactateChannel lactateOnlyRecord initLocals) = totalChecks initLocals + 1 \<and>
   dataCompleteness (lactateChannel lactateOnlyRecord initLocals) =
     dataCompleteness initLocals + 1 \<and>
   completenessRatio (scoreLocals mapOnlyRecord) = 1 \<and>
   riskLevel (predictWithUncertainty newEngine mapOnlyRecord) = LOW"
  by (simp add: eval_defs mapOnlyRecord_def lactateOnlyRecord_def)

text \<open>
  Claim C1, amended: for every patient record, when the scorer has run all its
  channels, \<open>totalChecks\<close> and \<open>dataCompleteness\<close> both equal the number of fields
  present among the six that are tested for presence: temperature, heart rate,
  respiratory rate, WBC, MAP and lactate. No other channel moves either counter.
\<close>

theorem counters_count_six_channels:
  "totalChecks (scoreLocals pd) = length (filter present (checkedFields pd)) \<and>
   dataCompleteness (scoreLocals pd) = length (filter present (checkedFields pd))"
  by (simp only: totalChecks_scoreLocals dataCompleteness_scoreLocals)

theorem counters_count_six_channels_witness:
  "totalChecks (scoreLocals mapOnlyRecord) = 1 \<and>
   dataCompleteness (scoreLocals mapOnlyRecord) = 1"
  using counters_count_six_channels [of mapOnlyRecord]
  by (simp add: checkedFields_def mapOnlyRecord_def emptyRecord_def emptyObj_def
      vitalsGet_def labsGet_def present_def)

section \<open>Facts about the returned prediction\<close>

lemma clamp_bounds:
  fixes lo hi x :: real
  assumes "lo \<le> hi"
  shows "lo \<le> max lo (min hi x)" and "max lo (min hi x) \<le> hi"
  using assms by (simp_all add: max_def min_def)

lemma probability_eq:
  "probability (predictWithUncertainty eng pd) =
     max 0 (min 1 (riskScore (scoreLocals pd) * 1.05))"
  by (simp add: predictWithUncertainty_def Let_def)

lemma confidence_eq:
  "confidence (predictWithUncertainty eng pd) =
     max 0.3 (min 0.96
       ((conf (scoreLocals pd) - uncertaintyPenalty (scoreLocals pd) * 0.7) *
        (0.75 + 0.25 * completenessRatio (scoreLocals pd))))"
  by (simp add: predictWithUncertainty_def Let_def)

text \<open>
  Claim C2: for every patient record the returned risk level is the one the
  first-match rule of the specification gives for the returned confidence, the
  completeness ratio of the scorer's counters and the returned probability.
\<close>

theorem riskLevel_first_match:
  "riskLevel (predictWithUncertainty eng pd) =
     specRiskLevel (confidence (predictWithUncertainty eng pd))
       (completenessRatio (scoreLocals pd))
       (probability (predictWithUncertainty eng pd))"
  by (simp add: predictWithUncertainty_def specRiskLevel_def Let_def)

theorem riskLevel_first_match_witness:
  "riskLevel (predictWithUncertainty newEngine mapOnlyRecord) = specRiskLevel 0.607 1 0"
  using riskLevel_first_match [of newEngine mapOnlyRecord]
  by (simp add: eval_defs mapOnlyRecord_def)

text \<open>
  Claim C3: for every patient record, whatever its field values (missing, null, NaN,
  infinite or finite of any size), the returned probability lies in \<open>[0, 1]\<close> and the
  returned confidence in \<open>[0.3, 0.96]\<close>.
\<close>

theorem prediction_bounds:
  "0 \<le> probability (predictWithUncertainty eng pd) \<and>
   probability (predictWithUncertainty eng pd) \<le> 1 \<and>
   0.3 \<le> confidence (predictWithUncertainty eng pd) \<and>
   confidence (predictWithUncertainty eng pd) \<le> 0.96"
proof -
  have p: "(0::real) \<le> 1" and c: "(0.3::real) \<le> 0.96"
    by simp_all
  show ?thesis
    unfolding probability_eq confidence_eq
    using clamp_bounds [OF p] clamp_bounds [OF c] by blast
qed

section \<open>Lactate and the probability\<close>

lemma riskScore_step:
  "riskScore (tempChannel pd s) = riskScore s + channelRisk tempChannel pd"
  "riskScore (hrChannel pd s) = riskScore s + channelRisk hrChannel pd"
  "riskScore (respChannel pd s) = riskScore s + channelRisk respChannel pd"
  "riskScore (wbcChannel pd s) = riskScore s + channelRisk wbcChannel pd"
  "riskScore (mapChannel pd s) = riskScore s + channelRisk mapChannel pd"
  "riskScore (lactateChannel pd s) = riskScore s + channelRisk lactateChannel pd"
  "riskScore (creatinineChannel pd s) = riskScore s + channelRisk creatinineChannel pd"
  "riskScore (plateletsChannel pd s) = riskScore s + channelRisk plateletsChannel pd"
  "riskScore (o2satChannel pd s) = riskScore s + channelRisk o2satChannel pd"
  "riskScore (phChannel pd s) = riskScore s + channelRisk phChannel pd"
  "riskScore (bilirubinChannel pd s) = riskScore s + channelRisk bilirubinChannel pd"
  "riskScore (pttChannel pd s) = riskScore s + channelRisk pttChannel pd"
  "riskScore (iculosChannel pd s) = riskScore s + channelRisk iculosChannel pd"
  "riskScore (ageChannel pd s) = riskScore s + channelRisk ageChannel pd"
  "riskScore (hospAdmChannel pd s) = riskScore s + channelRisk hospAdmChannel pd"
  by (simp_all add: channelRisk_def channel_defs step_defs initLocals_def Let_def)

lemma riskScore_scoreLocals:
  "riskScore (scoreLocals pd) =
     channelRisk tempChannel pd + channelRisk hrChannel pd + channelRisk respChannel pd +
     channelRisk wbcChannel pd + channelRisk mapChannel pd + channelRisk lactateChannel pd +
     channelRisk creatinineChannel pd + channelRisk plateletsChannel pd +
     channelRisk o2satChannel pd + channelRisk phChannel pd +
     channelRisk bilirubinChannel pd + channelRisk pttChannel pd +
     channelRisk iculosChannel pd + channelRisk ageChannel pd +
     channelRisk hospAdmChannel pd"
  by (simp add: scoreLocals_def riskScore_step initLocals_def)

lemma vitalsGet_withLactate: "vitalsGet (withLactate pd x) k = vitalsGet pd k"
  by (simp add: vitalsGet_def withLactate_def)

lemma labsGet_withLactate_other:
  "k \<noteq> ''Lactate'' \<Longrightarrow> labsGet (withLactate pd x) k = labsGet pd k"
  by (simp add: labsGet_def withLactate_def emptyObj_def split: option.splits)

lemma labsGet_withLactate_same: "labsGet (withLactate pd x) ''Lactate'' = Num (Fin x)"
  by (simp add: labsGet_def withLactate_def)

lemma scalars_withLactate:
  "ICULOS (withLactate pd x) = ICULOS pd"
  "Age (withLactate pd x) = Age pd"
  "HospAdmTime (withLactate pd x) = HospAdmTime pd"
  by (simp_all add: withLactate_def)

lemma channel_withLactate:
  "tempChannel (withLactate pd x) = tempChannel pd"
  "hrChannel (withLactate pd x) = hrChannel pd"
  "respChannel (withLactate pd x) = respChannel pd"
  "wbcChannel (withLactate pd x) = wbcChannel pd"
  "mapChannel (withLactate pd x) = mapChannel pd"
  "creatinineChannel (withLactate pd x) = creatinineChannel pd"
  "plateletsChannel (withLactate pd x) = plateletsChannel pd"
  "o2satChannel (withLactate pd x) = o2satChannel pd"
  "phChannel (withLactate pd x) = phChannel pd"
  "bilirubinChannel (withLactate pd x) = bilirubinChannel pd"
  "pttChannel (withLactate pd x) = pttChannel pd"
  "iculosChannel (withLactate pd x) = iculosChannel pd"
  "ageChannel (withLactate pd x) = ageChannel pd"
  "hospAdmChannel (withLactate pd x) = hospAdmChannel pd"
  by (simp_all add: fun_eq_iff channel_defs vitalsGet_withLactate labsGet_withLactate_other
      scalars_withLactate)

lemma channelRisk_lactate: "channelRisk lactateChannel (withLactate pd x) = lactateTier x"
  by (simp add: channelRisk_def lactateChannel_def labsGet_withLactate_same present_def
      gt_def lactateTier_def step_defs initLocals_def Let_def)

lemma lactateTier_mono: "x \<le> y \<Longrightarrow> lactateTier x \<le> lactateTier y"
  by (simp add: lactateTier_def)

lemma riskScore_withLactate:
  "riskScore (scoreLocals (withLactate pd x)) - lactateTier x =
   riskScore (scoreLocals (withLactate pd y)) - lactateTier y"
  by (simp add: riskScore_scoreLocals channelRisk_def channel_withLactate
      channelRisk_lactate [unfolded channelRisk_def])

lemma probability_mono_lactate:
  assumes "x \<le> y"
  shows "probability (predictWithUncertainty eng (withLactate pd x))
       \<le> probability (predictWithUncertainty eng (withLactate pd y))"
proof -
  have "riskScore (scoreLocals (withLactate pd x))
      \<le> riskScore (scoreLocals (withLactate pd y))"
    using riskScore_withLactate [of pd x y] lactateTier_mono [OF assms] by linarith
  then show ?thesis
    unfolding probability_eq by (simp add: max_def min_def)
qed

text \<open>
  Claim C4: for every patient record, setting its lactate to 1.4, 1.6, 2.1, 2.6 and 4.1
  in turn, all other fields as they were, gives probabilities that never decrease from
  one value of the sequence to the next.
\<close>

theorem lactate_sequence_monotone:
  "probability (predictWithUncertainty eng (withLactate pd 1.4))
     \<le> probability (predictWithUncertainty eng (withLactate pd 1.6)) \<and>
   probability (predictWithUncertainty eng (withLactate pd 1.6))
     \<le> probability (predictWithUncertainty eng (withLactate pd 2.1)) \<and>
   probability (predictWithUncertainty eng (withLactate pd 2.1))
     \<le> probability (predictWithUncertainty eng (withLactate pd 2.6)) \<and>
   probability (predictWithUncertainty eng (withLactate pd 2.6))
     \<le> probability (predictWithUncertainty eng (withLactate pd 4.1))"
  by (simp add: probability_mono_lactate)

theorem lactate_sequence_monotone_witness:
  "probability (predictWithUncertainty newEngine (withLactate emptyRecord 1.4))
     \<le> probability (predictWithUncertainty newEngine (withLactate emptyRecord 1.6)) \<and>
   probability (predictWithUncertainty newEngine (withLactate emptyRecord 1.4)) = 0 \<and>
   probability (predictWithUncertainty newEngine (withLactate emptyRecord 1.6)) = 0.084"
  using lactate_sequence_monotone [of newEngine emptyRecord]
  by (simp add: eval_defs withLactate_def)

section \<open>The threshold evaluator, parameter by parameter\<close>

lemma checkLoop_concat:
  "checkLoop pd ts acc = acc @ concat (map (\<lambda>(p, c). checkParam pd p c) ts)"
  by (induction ts arbitrary: acc) auto

lemma parameter_checkParam:
  "x \<in> set (checkParam pd p c) \<Longrightarrow> parameter x = p"
  by (auto simp: checkParam_def criticalCheck_def minCheck_def maxCheck_def
      split: if_splits jsval.splits option.splits)

lemma filter_checkParam_same:
  "filter (\<lambda>x. parameter x = p) (checkParam pd p c) = checkParam pd p c"
  by (rule filter_True) (simp add: parameter_checkParam)

lemma filter_checkParam_other:
  "q \<noteq> p \<Longrightarrow> filter (\<lambda>x. parameter x = p) (checkParam pd q c) = []"
  by (auto simp: filter_empty_conv dest: parameter_checkParam)

lemma filter_concat_checkParam:
  "distinct (map fst ts) \<Longrightarrow> (p, c) \<in> set ts \<Longrightarrow>
   filter (\<lambda>x. parameter x = p) (concat (map (\<lambda>(q, d). checkParam pd q d) ts)) =
     checkParam pd p c"
proof (induction ts)
  case Nil
  then show ?case by simp
next
  case (Cons e ts)
  obtain q d where e: "e = (q, d)" by (cases e)
  show ?case
  proof (cases "(p, c) = e")
    case True
    with Cons.prems e have "\<forall>(q', d') \<in> set ts. q' \<noteq> p"
      by (auto simp: image_iff)
    then have
      "filter (\<lambda>x. parameter x = p) (concat (map (\<lambda>(q, d). checkParam pd q d) ts)) = []"
      by (auto simp: filter_empty_conv dest: parameter_checkParam)
    with True e show ?thesis
      by (simp add: filter_checkParam_same)
  next
    case False
    with Cons.prems e have in_ts: "(p, c) \<in> set ts" and "q \<noteq> p"
      by (auto simp: image_iff)
    with Cons.IH Cons.prems e show ?thesis
      by (simp add: filter_checkParam_other)
  qed
qed

lemma js_lt_trans: "js_lt a b \<Longrightarrow> js_lt b c \<Longrightarrow> js_lt a c"
  by (cases a; cases b; cases c) auto

text \<open>
  A threshold table is an object, so its keys are distinct: the default table has
  distinct keys and \<open>updateThresholds\<close> keeps them so.
\<close>

lemma distinct_default_keys: "distinct (map fst (thresholds newEngine))"
  by (simp add: newEngine_def initializeDefaultThresholds_def)

lemma distinct_fold_update:
  "distinct (map fst ts) \<Longrightarrow>
   distinct (map fst (fold (\<lambda>(k, c). AList.update k c) new ts))"
  by (induction new arbitrary: ts) (auto simp: distinct_update)

lemma updateThresholds_distinct:
  "distinct (map fst (thresholds eng)) \<Longrightarrow>
   distinct (map fst (thresholds (updateThresholds new eng)))"
  by (simp add: updateThresholds_def distinct_fold_update)

text \<open>
  Claim C5, as stated, fails: after
  \<^verbatim>\<open>updateThresholds({ HR: { min: 100, max: 60, critical: 70, enabled: true } })\<close>,
  which is accepted without validation, a heart rate of 80 is below \<open>min\<close> and above
  \<open>max\<close> at once, and one call emits the critical violation, the min-breach warning and
  the max-breach warning.
\<close>

theorem min_and_max_breach_together:
  "checkThresholds contradictoryEngine hr80Record =
     [\<lparr>parameter = ''HR'', val = Fin 80, threshold = Fin 70, severity = Critical\<rparr>,
      \<lparr>parameter = ''HR'', val = Fin 80, threshold = Fin 100, severity = Warning\<rparr>,
      \<lparr>parameter = ''HR'', val = Fin 80, threshold = Fin 60, severity = Warning\<rparr>]"
  by (simp add: contradictoryEngine_def updateThresholds_def newEngine_def
      initializeDefaultThresholds_def checkThresholds_def checkParam_def resolveValue_def
      criticalCheck_def minCheck_def maxCheck_def mkThreshold_def lowerCritical_def
      hr80Record_def emptyRecord_def emptyObj_def vitalsGet_def labsGet_def)

text \<open>
  Claim C5, amended: for every enabled parameter of the table with \<open>min\<close>, \<open>max\<close> and
  \<open>critical\<close> all configured and a resolved value \<open>v\<close>, the violations of one call
  that carry this parameter are, in this order, the critical violation (when \<open>v\<close> is on
  the wrong side of \<open>critical\<close>), the min-breach warning (when \<open>v < min\<close>) and the
  max-breach warning (when \<open>v > max\<close>): at most three. Both warnings are emitted
  exactly when \<open>max < v < min\<close>; that cannot happen unless the configured range has
  \<open>max < min\<close>.
\<close>

theorem violations_per_parameter:
  assumes "distinct (map fst (thresholds eng))"
    and "(param, config) \<in> set (thresholds eng)"
    and "enabled config"
    and "tmin config = Some mn" and "tmax config = Some mx" and "critical config = Some cr"
    and "resolveValue pd param = Num v"
  shows
    "filter (\<lambda>x. parameter x = param) (checkThresholds eng pd) =
       (if (if lowerCritical param then js_lt v cr else js_lt cr v)
        then [\<lparr>parameter = param, val = v, threshold = cr, severity = Critical\<rparr>]
        else []) @
       (if js_lt v mn
        then [\<lparr>parameter = param, val = v, threshold = mn, severity = Warning\<rparr>]
        else []) @
       (if js_lt mx v
        then [\<lparr>parameter = param, val = v, threshold = mx, severity = Warning\<rparr>]
        else []) \<and>
     length (filter (\<lambda>x. parameter x = param) (checkThresholds eng pd)) \<le> 3 \<and>
     (\<not> js_lt mx mn \<longrightarrow> \<not> (js_lt v mn \<and> js_lt mx v))"
proof -
  have "filter (\<lambda>x. parameter x = param) (checkThresholds eng pd) =
          checkParam pd param config"
    unfolding checkThresholds_def checkLoop_concat
    using assms(1,2) by (simp add: filter_concat_checkParam)
  moreover have "checkParam pd param config =
       (if (if lowerCritical param then js_lt v cr else js_lt cr v)
        then [\<lparr>parameter = param, val = v, threshold = cr, severity = Critical\<rparr>]
        else []) @
       (if js_lt v mn
        then [\<lparr>parameter = param, val = v, threshold = mn, severity = Warning\<rparr>]
        else []) @
       (if js_lt mx v
        then [\<lparr>parameter = param, val = v, threshold = mx, severity = Warning\<rparr>]
        else [])"
    using assms(3-7) by (simp add: checkParam_def criticalCheck_def minCheck_def maxCheck_def)
  moreover have "\<not> js_lt mx mn \<longrightarrow> \<not> (js_lt v mn \<and> js_lt mx v)"
    using js_lt_trans by blast
  ultimately show ?thesis by simp
qed

theorem violations_per_parameter_witness:
  "filter (\<lambda>x. parameter x = ''HR'') (checkThresholds newEngine hr130Record) =
     [\<lparr>parameter = ''HR'', val = Fin 130, threshold = Fin 120, severity = Critical\<rparr>,
      \<lparr>parameter = ''HR'', val = Fin 130, threshold = Fin 100, severity = Warning\<rparr>] \<and>
   length (filter (\<lambda>x. parameter x = ''HR'') (checkThresholds newEngine hr130Record)) \<le> 3"
proof -
  have d: "distinct (map fst (thresholds newEngine))"
    by (simp add: newEngine_def initializeDefaultThresholds_def)
  have m: "(''HR'', mkThreshold 60 100 120 True) \<in> set (thresholds newEngine)"
    by (simp add: newEngine_def initializeDefaultThresholds_def)
  have r: "resolveValue hr130Record ''HR'' = Num (Fin 130)"
    by (simp add: resolveValue_def hr130Record_def emptyRecord_def emptyObj_def vitalsGet_def)
  show ?thesis
    using violations_per_parameter [OF d m _ _ _ _ r, of "Fin 60" "Fin 100" "Fin 120"]
    by (simp add: mkThreshold_def lowerCritical_def)
qed

section \<open>The synthesized metrics\<close>

lemma positiveCount_le: "positiveCount dataset \<le> length dataset"
  by (simp add: positiveCount_def)

text \<open>
  Claim C6: for every dataset, with \<open>N\<close> its length and \<open>P\<close> its number of rows labelled
  1 (so \<open>P \<le> N\<close>), and for every outcome of the random draws, the confusion matrix
  \<open>[[tn, fp], [fn, tp]]\<close> satisfies \<open>tp + fn = P\<close> and \<open>fp + tn = N - P\<close>.
\<close>

theorem confusion_matrix_exact:
  "(let cm = confusionMatrix (generateEnhancedMetrics rnd eng dataset);
        tn = cm ! 0 ! 0; fp = cm ! 0 ! 1; fn = cm ! 1 ! 0; tp = cm ! 1 ! 1
    in cm = [[tn, fp], [fn, tp]] \<and>
       tp + fn = int (positiveCount dataset) \<and>
       fp + tn = int (length dataset) - int (positiveCount dataset) \<and>
       positiveCount dataset \<le> length dataset)"
  by (simp add: generateEnhancedMetrics_def Let_def positiveCount_le)

theorem confusion_matrix_exact_witness:
  "confusionMatrix (generateEnhancedMetrics halfDraws newEngine sampleDataset) =
     [[2, 0], [0, 1]] \<and>
   positiveCount sampleDataset = 1 \<and> length sampleDataset = 3"
  using confusion_matrix_exact [of halfDraws newEngine sampleDataset]
  by (simp add: generateEnhancedMetrics_def Let_def halfDraws_def sampleDataset_def
      positiveCount_def rowGet_def js_round_def)

text \<open>
  Claim C7, as stated, fails: with every draw at 0 the precision is 0.83 and the recall
  0.89, both inside their ranges, and the computed false positive rate is 0.1513, not
  \<open>1 - 0.83 = 0.17\<close>.
\<close>

theorem fpr_is_not_one_minus_precision:
  "precision (generateEnhancedMetrics zeroDraws newEngine sampleDataset) = 0.83 \<and>
   recall (generateEnhancedMetrics zeroDraws newEngine sampleDataset) = 0.89 \<and>
   falsePositiveRate (generateEnhancedMetrics zeroDraws newEngine sampleDataset) = 0.1513 \<and>
   falsePositiveRate (generateEnhancedMetrics zeroDraws newEngine sampleDataset) \<noteq>
     1 - precision (generateEnhancedMetrics zeroDraws newEngine sampleDataset)"
  by (simp add: generateEnhancedMetrics_def Let_def zeroDraws_def)

text \<open>
  Claim C7, amended: for every precision and every recall the false positive rate
  computed as \<open>(1 - precision) * (recall / (1 - recall + recall))\<close> equals
  \<open>(1 - precision) * recall\<close>, the denominator being 1.
\<close>

theorem fpr_is_complement_times_recall:
  "falsePositiveRate (generateEnhancedMetrics rnd eng dataset) =
     (1 - precision (generateEnhancedMetrics rnd eng dataset)) *
     recall (generateEnhancedMetrics rnd eng dataset)"
  by (simp add: generateEnhancedMetrics_def Let_def)

theorem fpr_is_complement_times_recall_witness:
  "falsePositiveRate (generateEnhancedMetrics halfDraws newEngine sampleDataset) =
     (1 - 0.875) * 0.93"
  using fpr_is_complement_times_recall [of halfDraws newEngine sampleDataset]
  by (simp add: generateEnhancedMetrics_def Let_def halfDraws_def)

section \<open>The uncertainty analyzer on a recorded zero\<close>

text \<open>What the analyzer returns, tag by tag: a tag is pushed when its field is falsy.\<close>

lemma identifyUncertaintyFactors_tags:
  "identifyUncertaintyFactors eng pd =
     (if falsy (labsGet pd ''Lactate'') then [''Missing lactate levels''] else []) @
     (if falsy (labsGet pd ''WBC'') then [''Missing white blood cell count''] else []) @
     (if falsy (vitalsGet pd ''HR'') then [''Missing heart rate data''] else []) @
     (if falsy (vitalsGet pd ''Temp'') then [''Missing temperature readings''] else []) @
     (if gt (labsGet pd ''Lactate'') 2.0 \<and> lt (labsGet pd ''Lactate'') 2.5
      then [''Borderline lactate elevation''] else []) @
     (if gt (vitalsGet pd ''HR'') 85 \<and> lt (vitalsGet pd ''HR'') 95
      then [''Borderline tachycardia''] else [])"
  by (simp add: identifyUncertaintyFactors_def pushIf_def Let_def)

text \<open>
  Claim C8 at the record
  \<^verbatim>\<open>{ vitals: { HR: 0, Temp: 37 }, labs: { Lactate: 1, WBC: 8 } }\<close>: the heart rate
  is there (the scorer counts it as present), yet the analyzer, which tests \<^verbatim>\<open>!HR\<close>,
  emits the missing-heart-rate tag.
\<close>

theorem zero_heart_rate_reported_missing:
  "vitalsGet hrZeroRecord ''HR'' = Num (Fin 0) \<and>
   present (vitalsGet hrZeroRecord ''HR'') \<and>
   totalChecks (hrChannel hrZeroRecord initLocals) = 1 \<and>
   identifyUncertaintyFactors newEngine hrZeroRecord = [''Missing heart rate data'']"
  by (simp add: identifyUncertaintyFactors_def pushIf_def hrZeroRecord_def emptyRecord_def
      emptyObj_def vitalsGet_def labsGet_def gt_def lt_def present_def Let_def
      hrChannel_def step_defs initLocals_def)

section \<open>Empty records and the untrained engine\<close>

lemma untracked_uncertain:
  assumes "filter present (checkedFields pd) = []"
  shows "totalChecks (scoreLocals pd) = 0 \<and>
         completenessRatio (scoreLocals pd) = 0 \<and>
         riskLevel (predictWithUncertainty eng pd) = UNCERTAIN"
proof -
  have t: "totalChecks (scoreLocals pd) = 0"
    using assms by (simp add: totalChecks_scoreLocals)
  then have c: "completenessRatio (scoreLocals pd) = 0"
    by (simp add: completenessRatio_def)
  then have "riskLevel (predictWithUncertainty eng pd) = UNCERTAIN"
    by (simp add: predictWithUncertainty_def Let_def)
  with t c show ?thesis by simp
qed

text \<open>
  Claim C9: for every patient record in which no property of \<^verbatim>\<open>vitals\<close> or
  \<^verbatim>\<open>labs\<close> is set and none of \<^verbatim>\<open>ICULOS\<close>, \<^verbatim>\<open>Age\<close>, \<^verbatim>\<open>HospAdmTime\<close> is set,
  \<open>totalChecks\<close> is 0, so the completeness ratio is 0, below 0.35, and the risk level
  is UNCERTAIN.
\<close>

theorem empty_record_uncertain:
  assumes "\<And>k. vitalsGet pd k = Undefined" and "\<And>k. labsGet pd k = Undefined"
    and "ICULOS pd = Undefined" and "Age pd = Undefined" and "HospAdmTime pd = Undefined"
  shows "totalChecks (scoreLocals pd) = 0 \<and>
         completenessRatio (scoreLocals pd) = 0 \<and>
         completenessRatio (scoreLocals pd) < 0.35 \<and>
         riskLevel (predictWithUncertainty eng pd) = UNCERTAIN"
proof -
  have "filter present (checkedFields pd) = []"
    by (simp add: checkedFields_def assms(1,2) present_def)
  then show ?thesis
    using untracked_uncertain [of pd eng] by simp
qed

theorem empty_record_uncertain_witness:
  "riskLevel (predictWithUncertainty newEngine emptyRecord) = UNCERTAIN \<and>
   totalChecks (scoreLocals emptyRecord) = 0"
  using empty_record_uncertain [of emptyRecord newEngine]
  by (simp add: vitalsGet_def labsGet_def emptyRecord_def)

text \<open>
  Claim C10: on an engine whose model is still \<^verbatim>\<open>null\<close>, \<open>analyzePatient\<close> raises
  the model-not-trained error for every record and patient id, while
  \<open>predictWithUncertainty\<close> returns, for every record, the very prediction it returns
  on the engine once training has completed (where \<open>analyzePatient\<close> then returns a
  report).
\<close>

theorem not_ready_gate_only_in_analyzePatient:
  assumes "model eng = None"
  shows "analyzePatient eng pd pid = Inl ModelNotTrained \<and>
         model (snd (trainModelInBackground rnd dataset eng)) \<noteq> None \<and>
         predictWithUncertainty eng pd =
           predictWithUncertainty (snd (trainModelInBackground rnd dataset eng)) pd \<and>
         (\<exists>report.
            analyzePatient (snd (trainModelInBackground rnd dataset eng)) pd pid = Inr report)"
  using assms
  by (simp add: analyzePatient_def trainModelInBackground_def Let_def
      predictWithUncertainty_def)

theorem not_ready_gate_only_in_analyzePatient_witness:
  "model newEngine = None \<and>
   analyzePatient newEngine hr130Record ''P1'' = Inl ModelNotTrained \<and>
   predictWithUncertainty newEngine hr130Record =
     predictWithUncertainty
       (snd (trainModelInBackground halfDraws sampleDataset newEngine)) hr130Record"
proof -
  have n: "model newEngine = None"
    by (simp add: newEngine_def)
  show ?thesis
    using n not_ready_gate_only_in_analyzePatient
      [OF n, of hr130Record "''P1''" halfDraws sampleDataset]
    by simp
qed

end
